theory Spec2Isabelle
  imports Complex_Main
begin

section \<open>Python values\<close>

subsection \<open>Strings and case conversion\<close>

text \<open>
  A Python \<^verbatim>\<open>str\<close> is a sequence of Unicode code points; a code point is a natural
  number.  \<open>lit\<close> turns an ASCII literal into such a sequence.
\<close>

type_synonym pystr = "nat list"

definition lit :: "string \<Rightarrow> pystr" where
  "lit s = map of_char s"

definition is_ascii :: "pystr \<Rightarrow> bool" where
  "is_ascii s = list_all (\<lambda>c. c < 128) s"

definition ascii_upper :: "nat \<Rightarrow> nat" where
  "ascii_upper c = (if 97 \<le> c \<and> c \<le> 122 then c - 32 else c)"

definition ascii_lower :: "nat \<Rightarrow> nat" where
  "ascii_lower c = (if 65 \<le> c \<and> c \<le> 90 then c + 32 else c)"

text \<open>
  \<^verbatim>\<open>str.upper()\<close> and \<^verbatim>\<open>str.lower()\<close>.  On a string of ASCII characters they map
  \<open>a..z\<close> to \<open>A..Z\<close> and back, character by character.  On a string with a character
  beyond ASCII the result is read from the Unicode character database of the
  interpreter (it may change the length of the string); that database is not part of
  the program and is a parameter of the model.
\<close>

record unicode_db =
  upper_nonascii :: "pystr \<Rightarrow> pystr"
  lower_nonascii :: "pystr \<Rightarrow> pystr"

definition py_upper :: "unicode_db \<Rightarrow> pystr \<Rightarrow> pystr" where
  "py_upper U s = (if is_ascii s then map ascii_upper s else upper_nonascii U s)"

definition py_lower :: "unicode_db \<Rightarrow> pystr \<Rightarrow> pystr" where
  "py_lower U s = (if is_ascii s then map ascii_lower s else lower_nonascii U s)"

text \<open>
  A database for concrete evaluation: every character beyond ASCII is caseless.  On a
  string of ASCII characters no result depends on the database.
\<close>

definition caseless_db :: unicode_db where
  "caseless_db = \<lparr>upper_nonascii = (\<lambda>s. s), lower_nonascii = (\<lambda>s. s)\<rparr>"

subsection \<open>JSON documents as Python objects\<close>

text \<open>
  \<^verbatim>\<open>json.load\<close> yields \<^verbatim>\<open>None\<close>, \<^verbatim>\<open>bool\<close>, \<^verbatim>\<open>int\<close> (unbounded), \<^verbatim>\<open>float\<close>,
  \<^verbatim>\<open>str\<close>, \<^verbatim>\<open>list\<close> and \<^verbatim>\<open>dict\<close>.  A float is represented by its exact value (a
  rational; \<open>0.0\<close> and \<open>-0.0\<close> are both \<open>Finite 0\<close>, as they compare equal) or one of
  the three special values the parser accepts.  A dict is the list of its items in
  insertion order; the keys of a dict are pairwise distinct.
\<close>

datatype pyfloat = Finite rat | PosInf | NegInf | NaN

datatype jval =
    JNull
  | JBool bool
  | JInt int
  | JFloat pyfloat
  | JStr pystr
  | JList "jval list"
  | JObj "(pystr \<times> jval) list"

type_synonym pydict = "(pystr \<times> jval) list"

text \<open>\<^verbatim>\<open>d[k] = v\<close>: an existing key keeps its position, a new key goes last.\<close>

fun dict_set :: "pydict \<Rightarrow> pystr \<Rightarrow> jval \<Rightarrow> pydict" where
  "dict_set [] k v = [(k, v)]"
| "dict_set ((k', v') # d) k v =
     (if k' = k then (k', v) # d else (k', v') # dict_set d k v)"

text \<open>Truth value of an object (\<^verbatim>\<open>if x:\<close>, \<^verbatim>\<open>not x\<close>).\<close>

fun truthy :: "jval \<Rightarrow> bool" where
  "truthy JNull = False"
| "truthy (JBool b) = b"
| "truthy (JInt i) = (i \<noteq> 0)"
| "truthy (JFloat f) = (f \<noteq> Finite 0)"
| "truthy (JStr s) = (s \<noteq> [])"
| "truthy (JList xs) = (xs \<noteq> [])"
| "truthy (JObj d) = (d \<noteq> [])"

subsection \<open>Equality\<close>

text \<open>
  Numbers: \<^verbatim>\<open>bool\<close> is a subclass of \<^verbatim>\<open>int\<close> (\<^verbatim>\<open>True == 1\<close>, \<^verbatim>\<open>False == 0\<close>); an
  \<^verbatim>\<open>int\<close> and a \<^verbatim>\<open>float\<close> are compared by their exact values; \<^verbatim>\<open>nan\<close> equals
  nothing, itself included.
\<close>

datatype pynum = PyInt int | PyFloat pyfloat

fun as_number :: "jval \<Rightarrow> pynum option" where
  "as_number (JBool b) = Some (PyInt (if b then 1 else 0))"
| "as_number (JInt i) = Some (PyInt i)"
| "as_number (JFloat f) = Some (PyFloat f)"
| "as_number _ = None"

fun num_eq :: "pynum \<Rightarrow> pynum \<Rightarrow> bool" where
  "num_eq (PyInt i) (PyInt j) = (i = j)"
| "num_eq (PyInt i) (PyFloat f) = (f = Finite (of_int i))"
| "num_eq (PyFloat f) (PyInt i) = (f = Finite (of_int i))"
| "num_eq (PyFloat f) (PyFloat g) = (f \<noteq> NaN \<and> f = g)"

text \<open>
  \<open>py_eq a b\<close> is \<^verbatim>\<open>a == b\<close>.  The items of two lists and the values of two dicts are
  compared by identity first and by \<^verbatim>\<open>==\<close> second (\<open>py_is_or_eq\<close>); identity differs
  from \<^verbatim>\<open>==\<close> only on \<^verbatim>\<open>nan\<close>, and every \<^verbatim>\<open>NaN\<close> token is parsed to one object.
\<close>

fun py_eq :: "jval \<Rightarrow> jval \<Rightarrow> bool"
  and py_is_or_eq :: "jval \<Rightarrow> jval \<Rightarrow> bool"
  and py_eq_list :: "jval list \<Rightarrow> jval list \<Rightarrow> bool"
  and py_eq_dict :: "pydict \<Rightarrow> pydict \<Rightarrow> bool"
where
  "py_eq JNull b = (b = JNull)"
| "py_eq (JStr s) b = (case b of JStr t \<Rightarrow> s = t | _ \<Rightarrow> False)"
| "py_eq (JList xs) b = (case b of JList ys \<Rightarrow> py_eq_list xs ys | _ \<Rightarrow> False)"
| "py_eq (JObj d) b =
     (case b of JObj e \<Rightarrow> length d = length e \<and> py_eq_dict d e | _ \<Rightarrow> False)"
| "py_eq (JBool x) b =
     (case as_number b of Some n \<Rightarrow> num_eq (PyInt (if x then 1 else 0)) n | None \<Rightarrow> False)"
| "py_eq (JInt i) b =
     (case as_number b of Some n \<Rightarrow> num_eq (PyInt i) n | None \<Rightarrow> False)"
| "py_eq (JFloat f) b =
     (case as_number b of Some n \<Rightarrow> num_eq (PyFloat f) n | None \<Rightarrow> False)"
| "py_is_or_eq a b = ((a = JFloat NaN \<and> b = JFloat NaN) \<or> py_eq a b)"
| "py_eq_list [] ys = (ys = [])"
| "py_eq_list (x # xs) ys =
     (case ys of [] \<Rightarrow> False | y # ys' \<Rightarrow> py_is_or_eq x y \<and> py_eq_list xs ys')"
| "py_eq_dict [] e = True"
| "py_eq_dict ((k, v) # d) e =
     (case map_of e k of None \<Rightarrow> False | Some w \<Rightarrow> py_is_or_eq v w \<and> py_eq_dict d e)"

text \<open>\<^verbatim>\<open>a != b\<close> is the negation of \<^verbatim>\<open>a == b\<close> on all these types.\<close>

definition py_ne :: "jval \<Rightarrow> jval \<Rightarrow> bool" where
  "py_ne a b = (\<not> py_eq a b)"

section \<open>The program\<close>

subsection \<open>Exceptions and dynamic typing\<close>

text \<open>
  The exceptions the handlers tell apart, and those that the operations of the program
  raise on an object of the wrong type.  \<open>OtherException\<close> stands for any other
  subclass of \<^verbatim>\<open>Exception\<close> that reading a request or a file can raise.
\<close>

datatype py_exn =
    FileNotFoundError
  | JSONDecodeError
  | AttributeError
  | TypeError
  | KeyError
  | UnicodeEncodeError
  | OtherException

text \<open>\<^verbatim>\<open>x.get(key, default)\<close>: only a dict has the method.\<close>

fun py_get :: "jval \<Rightarrow> pystr \<Rightarrow> jval \<Rightarrow> py_exn + jval" where
  "py_get (JObj d) key dflt = Inr (case map_of d key of Some v \<Rightarrow> v | None \<Rightarrow> dflt)"
| "py_get _ key dflt = Inl AttributeError"

text \<open>\<^verbatim>\<open>x.items()\<close>: only a dict has the method.\<close>

fun py_items :: "jval \<Rightarrow> py_exn + pydict" where
  "py_items (JObj d) = Inr d"
| "py_items _ = Inl AttributeError"

text \<open>
  \<^verbatim>\<open>for y in x\<close>: a list yields its items, a dict its keys, a string its characters
  (as strings of length one); nothing else is iterable.
\<close>

fun py_iter :: "jval \<Rightarrow> py_exn + jval list" where
  "py_iter (JList xs) = Inr xs"
| "py_iter (JObj d) = Inr (map (\<lambda>kv. JStr (fst kv)) d)"
| "py_iter (JStr s) = Inr (map (\<lambda>c. JStr [c]) s)"
| "py_iter _ = Inl TypeError"

subsection \<open>Naming: \<^verbatim>\<open>camel_to_pascal\<close>, \<^verbatim>\<open>pascal_to_camel\<close>\<close>

definition camel_to_pascal :: "unicode_db \<Rightarrow> pystr \<Rightarrow> pystr" where
  "camel_to_pascal U camel_str =
     (if camel_str = [] then camel_str
      else py_upper U [hd camel_str] @ tl camel_str)"

definition pascal_to_camel :: "unicode_db \<Rightarrow> pystr \<Rightarrow> pystr" where
  "pascal_to_camel U pascal_str =
     (if pascal_str = [] then pascal_str
      else py_lower U [hd pascal_str] @ tl pascal_str)"

subsection \<open>Matching: \<^verbatim>\<open>match_rule\<close>\<close>

text \<open>The first loop of \<^verbatim>\<open>match_rule\<close>, over \<^verbatim>\<open>facts.items()\<close>.\<close>

fun pascal_facts_loop :: "unicode_db \<Rightarrow> pydict \<Rightarrow> pydict \<Rightarrow> pydict" where
  "pascal_facts_loop U pascal_facts [] = pascal_facts"
| "pascal_facts_loop U pascal_facts ((key, v) # items) =
     (if v \<noteq> JNull
      then pascal_facts_loop U (dict_set pascal_facts (camel_to_pascal U key) v) items
      else pascal_facts_loop U pascal_facts items)"

text \<open>The loop over \<^verbatim>\<open>conditions.items()\<close>; its result is the flag \<^verbatim>\<open>matches\<close>.\<close>

fun conditions_match :: "pydict \<Rightarrow> pydict \<Rightarrow> bool" where
  "conditions_match pascal_facts [] = True"
| "conditions_match pascal_facts ((condition_key, condition_value) # conditions) =
     (case map_of pascal_facts condition_key of
        None \<Rightarrow> False
      | Some fact_value \<Rightarrow>
          if py_ne fact_value condition_value then False
          else conditions_match pascal_facts conditions)"

text \<open>
  The test of one rule: the body of the loop over \<^verbatim>\<open>rules\<close> up to the value of
  \<^verbatim>\<open>matches\<close>.  A rule that is no dict, or whose \<^verbatim>\<open>conditions\<close> is no dict, raises.
\<close>

definition rule_matches :: "pydict \<Rightarrow> jval \<Rightarrow> py_exn + bool" where
  "rule_matches pascal_facts rule =
     (case py_get rule (lit ''conditions'') (JObj []) of
        Inl e \<Rightarrow> Inl e
      | Inr conditions \<Rightarrow>
          (case py_items conditions of
             Inl e \<Rightarrow> Inl e
           | Inr items \<Rightarrow> Inr (conditions_match pascal_facts items)))"

fun rules_loop :: "pydict \<Rightarrow> jval list \<Rightarrow> py_exn + jval option" where
  "rules_loop pascal_facts [] = Inr None"
| "rules_loop pascal_facts (rule # rules) =
     (case rule_matches pascal_facts rule of
        Inl e \<Rightarrow> Inl e
      | Inr matches \<Rightarrow>
          if matches then Inr (Some rule) else rules_loop pascal_facts rules)"

definition match_rule :: "unicode_db \<Rightarrow> pydict \<Rightarrow> jval \<Rightarrow> py_exn + jval option" where
  "match_rule U facts rules =
     (let pascal_facts = pascal_facts_loop U [] facts in
      case py_iter rules of
        Inl e \<Rightarrow> Inl e
      | Inr rs \<Rightarrow> rules_loop pascal_facts rs)"

subsection \<open>Formatting: \<^verbatim>\<open>format_prediction\<close>\<close>

record prediction_response =
  willDropout :: bool
  riskLevel :: pystr
  explanation :: pystr
  remedies :: jval

text \<open>
  \<^verbatim>\<open>prediction.lower()\<close> raises on anything but a string.  An f-string inserts a string
  as it is.
\<close>

definition format_prediction ::
  "unicode_db \<Rightarrow> jval \<Rightarrow> jval \<Rightarrow> py_exn + prediction_response" where
  "format_prediction U prediction actions =
     (case prediction of
        JStr p \<Rightarrow>
          (let prediction_lower = py_lower U p;
               rem = (if truthy actions then actions else JList [])
           in Inr
             (if prediction_lower = lit ''dropout'' then
                \<lparr>willDropout = True, riskLevel = lit ''High'',
                 explanation = lit ''Based on the provided facts, the expert system predicts a high risk of dropout. '' @ p,
                 remedies = rem\<rparr>
              else if prediction_lower = lit ''graduate'' then
                \<lparr>willDropout = False, riskLevel = lit ''Low'',
                 explanation = lit ''Based on the provided facts, the expert system predicts the student will graduate successfully. '' @ p,
                 remedies = rem\<rparr>
              else if prediction_lower = lit ''staysenrolled'' then
                \<lparr>willDropout = False, riskLevel = lit ''Medium'',
                 explanation = lit ''Based on the provided facts, the expert system predicts the student will stay enrolled. '' @ p,
                 remedies = rem\<rparr>
              else
                \<lparr>willDropout = False, riskLevel = lit ''Medium'',
                 explanation = lit ''Based on the provided facts, the expert system prediction: '' @ p,
                 remedies = rem\<rparr>))
      | _ \<Rightarrow> Inl AttributeError)"

subsection \<open>The endpoints\<close>

text \<open>
  A response is the pair the handler returns: the body handed to the JSON serialiser and
  the status code.  The message of an error body is a fixed text or \<^verbatim>\<open>str(e)\<close>.
\<close>

datatype message = Msg pystr | StrOf py_exn

datatype body =
    ErrorBody message
  | PredictionBody prediction_response
  | FactsBody pydict

type_synonym response = "body \<times> nat"

text \<open>
  \<^verbatim>\<open>load_rules\<close>: the argument is what opening and parsing \<^verbatim>\<open>rules.json\<close> gives, the
  parsed document or the exception raised; then \<^verbatim>\<open>['rules']\<close> subscripts it.
\<close>

definition load_rules :: "py_exn + jval \<Rightarrow> py_exn + jval" where
  "load_rules rules_file =
     (case rules_file of
        Inl e \<Rightarrow> Inl e
      | Inr (JObj d) \<Rightarrow> (case map_of d (lit ''rules'') of Some r \<Rightarrow> Inr r | None \<Rightarrow> Inl KeyError)
      | Inr _ \<Rightarrow> Inl TypeError)"

text \<open>The three \<^verbatim>\<open>except\<close> clauses of \<^verbatim>\<open>dropout_risk\<close>, in their order.\<close>

definition rules_handler :: "py_exn \<Rightarrow> response" where
  "rules_handler e =
     (if e = FileNotFoundError then (ErrorBody (Msg (lit ''Rules file not found'')), 500)
      else if e = JSONDecodeError then (ErrorBody (Msg (lit ''Invalid rules file format'')), 500)
      else (ErrorBody (StrOf e), 500))"

text \<open>The dict comprehension over \<^verbatim>\<open>data.items()\<close>.\<close>

fun provided_facts_loop :: "pydict \<Rightarrow> pydict \<Rightarrow> pydict" where
  "provided_facts_loop provided_facts [] = provided_facts"
| "provided_facts_loop provided_facts ((k, v) # items) =
     (if v \<noteq> JNull then provided_facts_loop (dict_set provided_facts k v) items
      else provided_facts_loop provided_facts items)"

definition no_match_response :: prediction_response where
  "no_match_response =
     \<lparr>willDropout = False, riskLevel = lit ''Medium'',
      explanation = lit ''Based on the provided facts, no specific rule matched. General monitoring recommended.'',
      remedies = JList [JStr (lit ''Regular check-ins with academic advisor''),
                        JStr (lit ''Monitor academic performance'')]\<rparr>"

text \<open>
  \<^verbatim>\<open>dropout_risk\<close>: \<open>request_json\<close> is what \<^verbatim>\<open>request.get_json()\<close> gives (the parsed
  body or the exception it raises), \<open>rules_file\<close> what reading \<^verbatim>\<open>rules.json\<close> gives;
  the file is read only when the handler reaches \<^verbatim>\<open>load_rules()\<close>.
\<close>

definition dropout_risk :: "unicode_db \<Rightarrow> py_exn + jval \<Rightarrow> py_exn + jval \<Rightarrow> response" where
  "dropout_risk U request_json rules_file =
     (case request_json of
        Inl e \<Rightarrow> rules_handler e
      | Inr data \<Rightarrow>
          if \<not> truthy data then (ErrorBody (Msg (lit ''Missing request body'')), 400)
          else
            (case py_items data of
               Inl e \<Rightarrow> rules_handler e
             | Inr items \<Rightarrow>
                 (let provided_facts = provided_facts_loop [] items in
                  if length provided_facts < 3
                  then (ErrorBody (Msg (lit ''At least 3 facts are required'')), 400)
                  else
                    (case load_rules rules_file of
                       Inl e \<Rightarrow> rules_handler e
                     | Inr rules \<Rightarrow>
                         (case match_rule U provided_facts rules of
                            Inl e \<Rightarrow> rules_handler e
                          | Inr None \<Rightarrow> (PredictionBody no_match_response, 200)
                          | Inr (Some matched_rule) \<Rightarrow>
                              if truthy matched_rule then
                                (case py_get matched_rule (lit ''prediction'') (JStr (lit ''StayEnrolled'')) of
                                   Inl e \<Rightarrow> rules_handler e
                                 | Inr prediction \<Rightarrow>
                                     (case py_get matched_rule (lit ''actions'') (JList []) of
                                        Inl e \<Rightarrow> rules_handler e
                                      | Inr actions \<Rightarrow>
                                          (case format_prediction U prediction actions of
                                             Inl e \<Rightarrow> rules_handler e
                                           | Inr response \<Rightarrow> (PredictionBody response, 200))))
                              else (PredictionBody no_match_response, 200))))))"

text \<open>
  \<^verbatim>\<open>get_facts\<close> serialises with \<^verbatim>\<open>json.dumps(camel_facts, ensure_ascii=False)\<close>, which
  writes every string with its own characters, and \<^verbatim>\<open>make_response\<close> encodes the text
  as UTF-8.  A surrogate code point (\<open>D800..DFFF\<close>; \<^verbatim>\<open>json.load\<close> yields one for an
  unpaired surrogate escape) has no UTF-8 encoding: with one in a key or in a string
  value, at any depth, the encoding raises \<^verbatim>\<open>UnicodeEncodeError\<close> inside the \<^verbatim>\<open>try\<close>.
\<close>

definition is_surrogate :: "nat \<Rightarrow> bool" where
  "is_surrogate c = (55296 \<le> c \<and> c \<le> 57343)"

definition str_encodable :: "pystr \<Rightarrow> bool" where
  "str_encodable s = list_all (\<lambda>c. \<not> is_surrogate c) s"

fun utf8_encodable :: "jval \<Rightarrow> bool"
  and utf8_encodable_list :: "jval list \<Rightarrow> bool"
  and utf8_encodable_dict :: "pydict \<Rightarrow> bool"
where
  "utf8_encodable JNull = True"
| "utf8_encodable (JBool b) = True"
| "utf8_encodable (JInt i) = True"
| "utf8_encodable (JFloat f) = True"
| "utf8_encodable (JStr s) = str_encodable s"
| "utf8_encodable (JList xs) = utf8_encodable_list xs"
| "utf8_encodable (JObj d) = utf8_encodable_dict d"
| "utf8_encodable_list [] = True"
| "utf8_encodable_list (x # xs) = (utf8_encodable x \<and> utf8_encodable_list xs)"
| "utf8_encodable_dict [] = True"
| "utf8_encodable_dict ((k, v) # d) =
     (str_encodable k \<and> utf8_encodable v \<and> utf8_encodable_dict d)"

text \<open>
  \<^verbatim>\<open>get_facts\<close>: \<open>facts_file\<close> is what reading \<^verbatim>\<open>facts.json\<close> gives.  The body is the
  ordered mapping \<^verbatim>\<open>camel_facts\<close>, which the serialiser writes in its order.
\<close>

definition facts_handler :: "py_exn \<Rightarrow> response" where
  "facts_handler e =
     (if e = FileNotFoundError then (ErrorBody (Msg (lit ''Facts file not found'')), 500)
      else if e = JSONDecodeError then (ErrorBody (Msg (lit ''Invalid facts file format'')), 500)
      else (ErrorBody (StrOf e), 500))"

fun camel_facts_loop :: "unicode_db \<Rightarrow> pydict \<Rightarrow> pydict \<Rightarrow> pydict" where
  "camel_facts_loop U camel_facts [] = camel_facts"
| "camel_facts_loop U camel_facts ((key, v) # items) =
     camel_facts_loop U (dict_set camel_facts (pascal_to_camel U key) v) items"

definition get_facts :: "unicode_db \<Rightarrow> py_exn + jval \<Rightarrow> response" where
  "get_facts U facts_file =
     (case facts_file of
        Inl e \<Rightarrow> facts_handler e
      | Inr facts \<Rightarrow>
          (case py_items facts of
             Inl e \<Rightarrow> facts_handler e
           | Inr items \<Rightarrow>
               (let camel_facts = camel_facts_loop U [] items in
                if utf8_encodable (JObj camel_facts) then (FactsBody camel_facts, 200)
                else facts_handler UnicodeEncodeError)))"

section \<open>Notions of the specification\<close>

text \<open>
  The normalized, null-filtered fact mapping, from the words of the specification: drop
  the entries whose value is null, convert each remaining key to internal form.  Where
  two keys have the same internal form the later entry counts.
\<close>

definition normalized_facts :: "unicode_db \<Rightarrow> pydict \<Rightarrow> (pystr \<rightharpoonup> jval)" where
  "normalized_facts U facts =
     map_of (rev (map (\<lambda>(k, v). (camel_to_pascal U k, v))
                      (filter (\<lambda>(k, v). v \<noteq> JNull) facts)))"

text \<open>A condition holds in a mapping: its key is present, with an equal value.\<close>

definition condition_holds :: "(pystr \<rightharpoonup> jval) \<Rightarrow> pystr \<times> jval \<Rightarrow> bool" where
  "condition_holds m c = (case m (fst c) of None \<Rightarrow> False | Some fv \<Rightarrow> py_eq fv (snd c))"

text \<open>
  A rule is a JSON object whose \<^verbatim>\<open>conditions\<close>, when present, is a JSON object; a
  rule without the field has no condition.
\<close>

definition wf_rule :: "jval \<Rightarrow> bool" where
  "wf_rule rule =
     (case rule of
        JObj d \<Rightarrow> (case map_of d (lit ''conditions'') of
                     None \<Rightarrow> True | Some (JObj c) \<Rightarrow> True | Some _ \<Rightarrow> False)
      | _ \<Rightarrow> False)"

definition rule_conditions :: "jval \<Rightarrow> pydict" where
  "rule_conditions rule =
     (case rule of
        JObj d \<Rightarrow> (case map_of d (lit ''conditions'') of Some (JObj c) \<Rightarrow> c | _ \<Rightarrow> [])
      | _ \<Rightarrow> [])"

definition rule_satisfied :: "(pystr \<rightharpoonup> jval) \<Rightarrow> jval \<Rightarrow> bool" where
  "rule_satisfied m rule = list_all (condition_holds m) (rule_conditions rule)"

text \<open>
  Case-insensitive match of two whole strings: they are equal once both are lower-cased.
\<close>

definition ci_equal :: "unicode_db \<Rightarrow> pystr \<Rightarrow> pystr \<Rightarrow> bool" where
  "ci_equal U s t = (py_lower U s = py_lower U t)"

text \<open>The type of a JSON value; \<^verbatim>\<open>int\<close> and \<^verbatim>\<open>float\<close> are both JSON numbers.\<close>

datatype json_type = TNull | TBoolean | TNumber | TString | TArray | TObject

fun json_type_of :: "jval \<Rightarrow> json_type" where
  "json_type_of JNull = TNull"
| "json_type_of (JBool b) = TBoolean"
| "json_type_of (JInt i) = TNumber"
| "json_type_of (JFloat f) = TNumber"
| "json_type_of (JStr s) = TString"
| "json_type_of (JList xs) = TArray"
| "json_type_of (JObj d) = TObject"

text \<open>
  A boolean against the number of its value: \<open>true\<close> against \<open>1\<close> or \<open>1.0\<close>, \<open>false\<close>
  against \<open>0\<close> or \<open>0.0\<close>.
\<close>

fun boolean_as_number :: "jval \<Rightarrow> jval \<Rightarrow> bool" where
  "boolean_as_number (JBool b) (JInt i) = (i = (if b then 1 else 0))"
| "boolean_as_number (JBool b) (JFloat f) = (f = Finite (if b then 1 else 0))"
| "boolean_as_number (JInt i) (JBool b) = (i = (if b then 1 else 0))"
| "boolean_as_number (JFloat f) (JBool b) = (f = Finite (if b then 1 else 0))"
| "boolean_as_number _ _ = False"

text \<open>
  A name in internal form whose first character is ASCII: \<^verbatim>\<open>camel_to_pascal\<close> leaves it
  as it is.
\<close>

definition ascii_internal_form :: "unicode_db \<Rightarrow> pystr \<Rightarrow> bool" where
  "ascii_internal_form U k = (k = [] \<or> (hd k < 128 \<and> camel_to_pascal U k = k))"

section \<open>Sample data\<close>

text \<open>
  A database that knows one character beyond ASCII, the Kelvin sign \<open>U+212A\<close>: an
  upper-case letter (\<^verbatim>\<open>upper()\<close> keeps it) whose \<^verbatim>\<open>lower()\<close> is the ASCII letter \<open>k\<close>.
\<close>

definition kelvin_db :: unicode_db where
  "kelvin_db =
     \<lparr>upper_nonascii = (\<lambda>s. s),
      lower_nonascii = (\<lambda>s. if s = [8490] then [107] else s)\<rparr>"

definition sample_facts :: pydict where
  "sample_facts =
     [(lit ''age'', JInt 20), (lit ''gender'', JNull), (lit ''scholarship'', JBool True),
      (lit ''debtor'', JBool False)]"

definition sample_rules :: "jval list" where
  "sample_rules =
     [JObj [(lit ''conditions'', JObj [(lit ''Gender'', JStr (lit ''F''))]),
            (lit ''prediction'', JStr (lit ''Dropout''))],
      JObj [(lit ''conditions'', JObj [(lit ''Age'', JInt 20), (lit ''Debtor'', JBool False)]),
            (lit ''prediction'', JStr (lit ''Graduate'')),
            (lit ''actions'', JList [JStr (lit ''Keep going'')])],
      JObj [(lit ''prediction'', JStr (lit ''StayEnrolled''))]]"

definition catch_all_rule :: jval where
  "catch_all_rule =
     JObj [(lit ''conditions'', JObj []), (lit ''prediction'', JStr (lit ''Graduate''))]"

definition unmatched_facts :: pydict where
  "unmatched_facts =
     [(lit ''age'', JInt 21), (lit ''gender'', JStr (lit ''M'')), (lit ''debtor'', JBool False)]"

definition sample_fact_definitions :: pydict where
  "sample_fact_definitions =
     [(lit ''Gender'', JStr (lit ''F'')), (lit ''Age'', JInt 18), (lit ''Debtor'', JBool False)]"

definition colliding_fact_definitions :: pydict where
  "colliding_fact_definitions = [(lit ''Kx'', JInt 1), (8490 # lit ''x'', JInt 2)]"

definition surrogate_fact_definitions :: pydict where
  "surrogate_fact_definitions = [(lit ''Age'', JStr [55296])]"

definition numeric_rule :: jval where
  "numeric_rule =
     JObj [(lit ''conditions'', JObj [(lit ''Scholarship'', JInt 1)]),
           (lit ''prediction'', JStr (lit ''Graduate''))]"

section \<open>Case conversion of ASCII strings\<close>

lemma py_upper_ascii1: "c < 128 \<Longrightarrow> py_upper U [c] = [ascii_upper c]"
  by (simp add: py_upper_def is_ascii_def)

lemma py_lower_ascii1: "c < 128 \<Longrightarrow> py_lower U [c] = [ascii_lower c]"
  by (simp add: py_lower_def is_ascii_def)

lemma ascii_upper_less: "c < 128 \<Longrightarrow> ascii_upper c < 128"
  by (simp add: ascii_upper_def less_imp_diff_less)

lemma ascii_lower_upper: "\<not> (65 \<le> c \<and> c \<le> 90) \<Longrightarrow> ascii_lower (ascii_upper c) = c"
  by (auto simp: ascii_lower_def ascii_upper_def)

lemma py_lower_labels:
  "py_lower U (lit ''dropout'') = lit ''dropout''"
  "py_lower U (lit ''graduate'') = lit ''graduate''"
  "py_lower U (lit ''staysenrolled'') = lit ''staysenrolled''"
  by (simp_all add: py_lower_def is_ascii_def ascii_lower_def lit_def)

lemma lit_labels_distinct:
  "lit ''dropout'' \<noteq> lit ''graduate''"
  "lit ''dropout'' \<noteq> lit ''staysenrolled''"
  "lit ''graduate'' \<noteq> lit ''staysenrolled''"
  by (simp_all add: lit_def)

text \<open>
  The default label of \<^verbatim>\<open>dropout_risk\<close> lower-cases to \<open>stayenrolled\<close>, which is none
  of the three labels \<^verbatim>\<open>format_prediction\<close> knows (\<open>staysenrolled\<close> has one more
  \<open>s\<close>): it is formatted by the last branch.
\<close>

lemma py_lower_StayEnrolled: "py_lower U (lit ''StayEnrolled'') = lit ''stayenrolled''"
  by (simp add: py_lower_def is_ascii_def ascii_lower_def lit_def)

lemma format_prediction_default_label:
  "format_prediction U (JStr (lit ''StayEnrolled'')) (JList []) =
     Inr \<lparr>willDropout = False, riskLevel = lit ''Medium'',
          explanation = lit ''Based on the provided facts, the expert system prediction: '' @ lit ''StayEnrolled'',
          remedies = JList []\<rparr>"
  by (simp add: format_prediction_def py_lower_StayEnrolled) (simp add: lit_def)

section \<open>Equality across types\<close>

text \<open>Across JSON types, \<^verbatim>\<open>==\<close> holds exactly between a boolean and the number of its value.\<close>

lemma py_eq_across_types:
  "json_type_of a \<noteq> json_type_of b \<Longrightarrow> py_eq a b = boolean_as_number a b"
  by (cases a; cases b) auto

section \<open>Dictionaries and the loops that build them\<close>

lemma map_of_dict_set: "map_of (dict_set d k v) = (map_of d)(k \<mapsto> v)"
  by (induction d k v rule: dict_set.induct) (auto simp: fun_eq_iff)

lemma length_dict_set: "length (dict_set d k v) \<le> Suc (length d)"
  by (induction d k v rule: dict_set.induct) auto

lemma dict_set_fresh: "k \<notin> fst ` set d \<Longrightarrow> dict_set d k v = d @ [(k, v)]"
  by (induction d k v rule: dict_set.induct) auto

lemma normalized_facts_Nil: "normalized_facts U [] = Map.empty"
  by (simp add: normalized_facts_def)

lemma normalized_facts_Cons:
  "normalized_facts U ((k, v) # facts) =
     (if v \<noteq> JNull then [camel_to_pascal U k \<mapsto> v] ++ normalized_facts U facts
      else normalized_facts U facts)"
  by (simp add: normalized_facts_def)

lemma normalized_facts_append:
  "normalized_facts U (xs @ ys) = normalized_facts U xs ++ normalized_facts U ys"
  by (simp add: normalized_facts_def)

text \<open>The dict that the first loop of \<^verbatim>\<open>match_rule\<close> builds is the normalized mapping.\<close>

lemma map_of_pascal_facts_loop:
  "map_of (pascal_facts_loop U acc facts) = map_of acc ++ normalized_facts U facts"
proof (induction facts arbitrary: acc)
  case Nil
  show ?case by (simp add: normalized_facts_Nil)
next
  case (Cons kv facts)
  obtain k v where kv: "kv = (k, v)" by (cases kv)
  show ?case
  proof (cases "v = JNull")
    case True
    then show ?thesis using Cons.IH [of acc] by (simp add: kv normalized_facts_Cons)
  next
    case False
    have "map_of (pascal_facts_loop U acc (kv # facts)) =
            map_of (pascal_facts_loop U (dict_set acc (camel_to_pascal U k) v) facts)"
      using False by (simp add: kv)
    also have "\<dots> = map_of (dict_set acc (camel_to_pascal U k) v) ++ normalized_facts U facts"
      by (rule Cons.IH)
    also have "\<dots> = (map_of acc ++ [camel_to_pascal U k \<mapsto> v]) ++ normalized_facts U facts"
      by (simp add: map_of_dict_set)
    also have "\<dots> = map_of acc ++ normalized_facts U (kv # facts)"
      using False by (simp add: kv normalized_facts_Cons)
    finally show ?thesis .
  qed
qed

lemma map_of_pascal_facts: "map_of (pascal_facts_loop U [] facts) = normalized_facts U facts"
  by (simp add: map_of_pascal_facts_loop)

lemma pascal_facts_loop_filter:
  "pascal_facts_loop U acc (filter (\<lambda>(k, v). v \<noteq> JNull) items) = pascal_facts_loop U acc items"
  by (induction U acc items rule: pascal_facts_loop.induct) auto

lemma match_rule_filter:
  "match_rule U (filter (\<lambda>(k, v). v \<noteq> JNull) items) rules = match_rule U items rules"
  by (simp add: match_rule_def pascal_facts_loop_filter)

lemma length_provided_facts_loop:
  "length (provided_facts_loop acc items) \<le>
     length acc + length (filter (\<lambda>(k, v). v \<noteq> JNull) items)"
proof (induction acc items rule: provided_facts_loop.induct)
  case (1 acc)
  show ?case by simp
next
  case (2 acc k v items)
  show ?case
  proof (cases "v = JNull")
    case True
    then show ?thesis using 2 by simp
  next
    case False
    then show ?thesis
      using 2(1) [OF False] length_dict_set [of acc k v] by simp
  qed
qed

text \<open>On a dict (distinct keys) the comprehension is a filter.\<close>

lemma provided_facts_loop_distinct:
  "distinct (map fst acc @ map fst items) \<Longrightarrow>
   provided_facts_loop acc items = acc @ filter (\<lambda>(k, v). v \<noteq> JNull) items"
proof (induction acc items rule: provided_facts_loop.induct)
  case (1 acc)
  show ?case by simp
next
  case (2 acc k v items)
  show ?case
  proof (cases "v = JNull")
    case True
    then show ?thesis using 2 by simp
  next
    case False
    have fresh: "k \<notin> fst ` set acc" using 2(3) by auto
    have "distinct (map fst (dict_set acc k v) @ map fst items)"
      using 2(3) by (auto simp: dict_set_fresh [OF fresh])
    then show ?thesis
      using 2(1) [OF False] False by (simp add: dict_set_fresh [OF fresh])
  qed
qed

lemma camel_facts_loop_distinct:
  "distinct (map fst acc @ map (\<lambda>kv. pascal_to_camel U (fst kv)) items) \<Longrightarrow>
   camel_facts_loop U acc items = acc @ map (\<lambda>(k, v). (pascal_to_camel U k, v)) items"
proof (induction U acc items rule: camel_facts_loop.induct)
  case (1 U acc)
  show ?case by simp
next
  case (2 U acc k v items)
  have fresh: "pascal_to_camel U k \<notin> fst ` set acc" using 2(2) by auto
  have "distinct (map fst (dict_set acc (pascal_to_camel U k) v) @
                  map (\<lambda>kv. pascal_to_camel U (fst kv)) items)"
    using 2(2) by (auto simp: dict_set_fresh [OF fresh])
  then show ?case
    using 2(1) by (simp add: dict_set_fresh [OF fresh])
qed

section \<open>Conversion of the keys of the fact definitions\<close>

lemma pascal_to_camel_ascii:
  "k \<noteq> [] \<Longrightarrow> hd k < 128 \<Longrightarrow> pascal_to_camel U k = ascii_lower (hd k) # tl k"
  by (simp add: pascal_to_camel_def py_lower_ascii1)

lemma ascii_internal_form_hd:
  assumes "ascii_internal_form U k" "k \<noteq> []"
  shows "hd k < 128 \<and> \<not> (97 \<le> hd k \<and> hd k \<le> 122)"
proof -
  from assms have lt: "hd k < 128" and unchanged: "camel_to_pascal U k = k"
    by (auto simp: ascii_internal_form_def)
  from unchanged assms(2) lt have "ascii_upper (hd k) # tl k = k"
    by (simp add: camel_to_pascal_def py_upper_ascii1)
  then have "ascii_upper (hd k) = hd k"
    using assms(2) by (cases k) auto
  then have "\<not> (97 \<le> hd k \<and> hd k \<le> 122)"
    by (auto simp: ascii_upper_def split: if_splits)
  then show ?thesis using lt by simp
qed

lemma ascii_lower_inj:
  assumes "\<not> (97 \<le> c \<and> c \<le> 122)" "\<not> (97 \<le> d \<and> d \<le> 122)" "ascii_lower c = ascii_lower d"
  shows "c = d"
  using assms by (auto simp: ascii_lower_def split: if_splits)

lemma pascal_to_camel_inj:
  assumes k: "ascii_internal_form U k" and k': "ascii_internal_form U k'"
    and eq: "pascal_to_camel U k = pascal_to_camel U k'"
  shows "k = k'"
proof (cases "k = []")
  case True
  show ?thesis
  proof (cases "k' = []")
    case True
    with \<open>k = []\<close> show ?thesis by simp
  next
    case False
    then show ?thesis
      using eq True pascal_to_camel_ascii [OF False, of U] ascii_internal_form_hd [OF k' False]
      by (simp add: pascal_to_camel_def)
  qed
next
  case False
  note kne = False
  show ?thesis
  proof (cases "k' = []")
    case True
    then show ?thesis
      using eq kne pascal_to_camel_ascii [OF kne, of U] ascii_internal_form_hd [OF k kne]
      by (simp add: pascal_to_camel_def)
  next
    case False
    have h: "hd k < 128" "\<not> (97 \<le> hd k \<and> hd k \<le> 122)"
      using ascii_internal_form_hd [OF k kne] by simp_all
    have h': "hd k' < 128" "\<not> (97 \<le> hd k' \<and> hd k' \<le> 122)"
      using ascii_internal_form_hd [OF k' False] by simp_all
    from eq have "ascii_lower (hd k) # tl k = ascii_lower (hd k') # tl k'"
      by (simp add: pascal_to_camel_ascii [OF kne h(1)] pascal_to_camel_ascii [OF False h'(1)])
    then have "ascii_lower (hd k) = ascii_lower (hd k')" "tl k = tl k'" by simp_all
    then have "hd k = hd k'" "tl k = tl k'"
      using ascii_lower_inj [OF h(2) h'(2)] by simp_all
    then show ?thesis using kne False by (cases k; cases k') simp_all
  qed
qed

lemma converted_keys_distinct:
  assumes "distinct (map fst items)" "list_all (\<lambda>kv. ascii_internal_form U (fst kv)) items"
  shows "distinct (map (\<lambda>kv. pascal_to_camel U (fst kv)) items)"
proof -
  have "inj_on (pascal_to_camel U) (set (map fst items))"
    using assms(2) by (auto simp: inj_on_def list_all_iff intro: pascal_to_camel_inj)
  with assms(1) have "distinct (map (pascal_to_camel U) (map fst items))"
    by (simp only: distinct_map simp_thms)
  then show ?thesis by (simp only: map_map comp_def)
qed

lemma str_encodable_pascal_to_camel:
  assumes "ascii_internal_form U k"
  shows "str_encodable (pascal_to_camel U k) = str_encodable k"
proof (cases "k = []")
  case True
  then show ?thesis by (simp add: pascal_to_camel_def)
next
  case False
  have h: "hd k < 128" using ascii_internal_form_hd [OF assms False] by simp
  have "\<not> is_surrogate (hd k)" "\<not> is_surrogate (ascii_lower (hd k))"
    using h by (auto simp: is_surrogate_def ascii_lower_def)
  moreover have "pascal_to_camel U k = ascii_lower (hd k) # tl k"
    using False h by (rule pascal_to_camel_ascii)
  moreover have "k = hd k # tl k" using False by simp
  ultimately have "str_encodable (pascal_to_camel U k) = str_encodable (tl k)"
    and "str_encodable k = str_encodable (tl k)"
    by (simp_all add: str_encodable_def) (metis list.pred_inject(2))
  then show ?thesis by simp
qed

lemma utf8_encodable_dict_converted:
  "list_all (\<lambda>kv. ascii_internal_form U (fst kv)) items \<Longrightarrow>
   utf8_encodable_dict (map (\<lambda>(k, v). (pascal_to_camel U k, v)) items) = utf8_encodable_dict items"
  by (induction items) (auto simp: str_encodable_pascal_to_camel)

section \<open>The rule scan\<close>

lemma conditions_match_list_all:
  "conditions_match pf cs = list_all (condition_holds (map_of pf)) cs"
  by (induction pf cs rule: conditions_match.induct)
     (auto simp: condition_holds_def py_ne_def split: option.splits)

text \<open>The test of a rule returns exactly on the well-formed rules.\<close>

lemma rule_matches_Inr_iff:
  "rule_matches pf rule = Inr b \<longleftrightarrow> wf_rule rule \<and> b = rule_satisfied (map_of pf) rule"
proof (cases rule)
  case (JObj d)
  show ?thesis
  proof (cases "map_of d (lit ''conditions'')")
    case None
    then show ?thesis
      using JObj by (auto simp: rule_matches_def wf_rule_def rule_satisfied_def rule_conditions_def)
  next
    case (Some a)
    then show ?thesis
      using JObj
      by (cases a)
         (auto simp: rule_matches_def wf_rule_def rule_satisfied_def rule_conditions_def
            conditions_match_list_all)
  qed
qed (auto simp: rule_matches_def wf_rule_def)

lemma rule_matches_wf:
  "wf_rule rule \<Longrightarrow> rule_matches pf rule = Inr (rule_satisfied (map_of pf) rule)"
  by (simp add: rule_matches_Inr_iff)

lemma rules_loop_find:
  "list_all wf_rule rs \<Longrightarrow> rules_loop pf rs = Inr (find (rule_satisfied (map_of pf)) rs)"
  by (induction rs) (auto simp: rule_matches_wf)

lemma rules_loop_skip:
  "list_all (\<lambda>r. rule_matches pf r = Inr False) earlier \<Longrightarrow>
   rules_loop pf (earlier @ rest) = rules_loop pf rest"
  by (induction earlier) auto

lemma normalized_facts_unreferenced:
  "list_all (\<lambda>(k, v). camel_to_pascal U k \<noteq> key) extra \<Longrightarrow> normalized_facts U extra key = None"
  by (induction extra) (auto simp: normalized_facts_Nil normalized_facts_Cons map_add_def)

lemma normalized_facts_insert:
  assumes "list_all (\<lambda>(k, v). camel_to_pascal U k \<noteq> key) extra"
  shows "normalized_facts U (fs1 @ extra @ fs2) key = normalized_facts U (fs1 @ fs2) key"
  using normalized_facts_unreferenced [OF assms]
  by (simp add: normalized_facts_append map_add_def split: option.splits)

section \<open>Properties of the naming functions\<close>

text \<open>
  Claim C5, as the code has it.  For every non-empty string whose first character is
  restored by lower-casing its upper-case form (among the ASCII characters: every one
  but the capital letters \<open>A..Z\<close>), \<^verbatim>\<open>pascal_to_camel\<close> after \<^verbatim>\<open>camel_to_pascal\<close>
  gives the string back.  Both functions return on every string, the result being the
  converted first character followed by the rest of the string as it is, and both map
  the empty string to the empty string.
\<close>

theorem pascal_to_camel_after_camel_to_pascal:
  "(s \<noteq> [] \<and> py_upper U [hd s] = [u] \<and> py_lower U [u] = [hd s] \<longrightarrow>
      pascal_to_camel U (camel_to_pascal U s) = s) \<and>
   (s \<noteq> [] \<and> hd s < 128 \<and> \<not> (65 \<le> hd s \<and> hd s \<le> 90) \<longrightarrow>
      pascal_to_camel U (camel_to_pascal U s) = s) \<and>
   (s \<noteq> [] \<longrightarrow> camel_to_pascal U s = py_upper U [hd s] @ tl s \<and>
               pascal_to_camel U s = py_lower U [hd s] @ tl s) \<and>
   (s \<noteq> [] \<and> hd s < 128 \<longrightarrow> camel_to_pascal U s = ascii_upper (hd s) # tl s \<and>
               pascal_to_camel U s = ascii_lower (hd s) # tl s) \<and>
   camel_to_pascal U [] = [] \<and> pascal_to_camel U [] = []"
proof -
  have general: "pascal_to_camel U (camel_to_pascal U s) = s"
    if "s \<noteq> []" "py_upper U [hd s] = [u']" "py_lower U [u'] = [hd s]" for u'
    using that by (simp add: camel_to_pascal_def pascal_to_camel_def)
  have ascii: "pascal_to_camel U (camel_to_pascal U s) = s"
    if "s \<noteq> []" "hd s < 128" "\<not> (65 \<le> hd s \<and> hd s \<le> 90)"
  proof (rule general [OF that(1)])
    show "py_upper U [hd s] = [ascii_upper (hd s)]"
      using that(2) by (rule py_upper_ascii1)
    show "py_lower U [ascii_upper (hd s)] = [hd s]"
      using that(2,3) by (simp add: py_lower_ascii1 ascii_upper_less ascii_lower_upper)
  qed
  show ?thesis
    using general [of u] ascii
    by (simp add: camel_to_pascal_def pascal_to_camel_def py_upper_ascii1 py_lower_ascii1)
qed

theorem pascal_to_camel_after_camel_to_pascal_witness:
  "lit ''age'' \<noteq> [] \<and> py_upper caseless_db [hd (lit ''age'')] = [65] \<and>
   py_lower caseless_db [65] = [hd (lit ''age'')] \<and>
   hd (lit ''age'') < 128 \<and> \<not> (65 \<le> hd (lit ''age'') \<and> hd (lit ''age'') \<le> 90) \<and>
   camel_to_pascal caseless_db (lit ''age'') = lit ''Age'' \<and>
   pascal_to_camel caseless_db (camel_to_pascal caseless_db (lit ''age'')) = lit ''age''"
proof -
  have a: "lit ''age'' \<noteq> []" by (simp add: lit_def)
  have b: "py_upper caseless_db [hd (lit ''age'')] = [65]"
    by (simp add: lit_def py_upper_def is_ascii_def ascii_upper_def)
  have c: "py_lower caseless_db [65] = [hd (lit ''age'')]"
    by (simp add: lit_def py_lower_def is_ascii_def ascii_lower_def)
  have d: "hd (lit ''age'') < 128" by (simp add: lit_def)
  have e: "\<not> (65 \<le> hd (lit ''age'') \<and> hd (lit ''age'') \<le> 90)" by (simp add: lit_def)
  have f: "camel_to_pascal caseless_db (lit ''age'') = lit ''Age''"
    by (simp add: camel_to_pascal_def lit_def py_upper_def is_ascii_def ascii_upper_def)
  show ?thesis
    using pascal_to_camel_after_camel_to_pascal [of "lit ''age''" caseless_db 65] a b c d e f
    by blast
qed

text \<open>
  Claim C5 as stated fails on a capital first letter, a character whose case can be
  inverted (\<open>A\<close> lower-cases to \<open>a\<close>, and \<open>a\<close> upper-cases to \<open>A\<close>):
  \<^verbatim>\<open>camel_to_pascal("Abc")\<close> is \<^verbatim>\<open>"Abc"\<close> and \<^verbatim>\<open>pascal_to_camel("Abc")\<close> is \<^verbatim>\<open>"abc"\<close>.
\<close>

theorem capital_first_letter_not_restored:
  "lit ''Abc'' \<noteq> [] \<and>
   py_lower caseless_db [hd (lit ''Abc'')] = lit ''a'' \<and>
   py_upper caseless_db (lit ''a'') = [hd (lit ''Abc'')] \<and>
   pascal_to_camel caseless_db (camel_to_pascal caseless_db (lit ''Abc'')) = lit ''abc'' \<and>
   lit ''abc'' \<noteq> lit ''Abc''"
  by (simp add: camel_to_pascal_def pascal_to_camel_def lit_def py_upper_def py_lower_def
        is_ascii_def ascii_upper_def ascii_lower_def)

section \<open>Properties of \<^verbatim>\<open>format_prediction\<close>\<close>

text \<open>
  Claim C3.  For every label and every actions value that is a list or null,
  \<^verbatim>\<open>format_prediction\<close> returns a response; it classifies the label by
  case-insensitive match of the whole string: \<open>dropout\<close> gives \<^verbatim>\<open>willDropout\<close> true
  and \<^verbatim>\<open>riskLevel\<close> High, \<open>graduate\<close> gives false and Low, \<open>staysenrolled\<close> and any
  other label give false and Medium, each with its explanation text (the generic one for
  any other label); the explanation ends with the label as it was given; the remedies
  are the actions list itself, or the empty list when actions is null.
\<close>

theorem format_prediction_classifies:
  assumes "actions = JList xs \<or> actions = JNull"
  shows "\<exists>r. format_prediction U (JStr label) actions = Inr r \<and>
     willDropout r = ci_equal U label (lit ''dropout'') \<and>
     riskLevel r =
       (if ci_equal U label (lit ''dropout'') then lit ''High''
        else if ci_equal U label (lit ''graduate'') then lit ''Low''
        else lit ''Medium'') \<and>
     explanation r =
       (if ci_equal U label (lit ''dropout'') then
          lit ''Based on the provided facts, the expert system predicts a high risk of dropout. ''
        else if ci_equal U label (lit ''graduate'') then
          lit ''Based on the provided facts, the expert system predicts the student will graduate successfully. ''
        else if ci_equal U label (lit ''staysenrolled'') then
          lit ''Based on the provided facts, the expert system predicts the student will stay enrolled. ''
        else lit ''Based on the provided facts, the expert system prediction: '') @ label \<and>
     remedies r = (if actions = JNull then JList [] else actions)"
proof -
  have rem: "(if truthy actions then actions else JList []) =
             (if actions = JNull then JList [] else actions)"
    using assms by auto
  show ?thesis
    unfolding format_prediction_def ci_equal_def py_lower_labels Let_def rem
    using lit_labels_distinct by simp
qed

theorem format_prediction_classifies_witness:
  "(JList [JStr (lit ''x'')] = JList [JStr (lit ''x'')] \<or> JList [JStr (lit ''x'')] = JNull) \<and>
   format_prediction caseless_db (JStr (lit ''GRADUATE'')) (JList [JStr (lit ''x'')]) =
     Inr \<lparr>willDropout = False, riskLevel = lit ''Low'',
          explanation = lit ''Based on the provided facts, the expert system predicts the student will graduate successfully. GRADUATE'',
          remedies = JList [JStr (lit ''x'')]\<rparr>"
proof -
  have a: "JList [JStr (lit ''x'')] = JList [JStr (lit ''x'')] \<or> JList [JStr (lit ''x'')] = JNull"
    by simp
  obtain r where r: "format_prediction caseless_db (JStr (lit ''GRADUATE'')) (JList [JStr (lit ''x'')]) = Inr r"
    and w: "willDropout r = ci_equal caseless_db (lit ''GRADUATE'') (lit ''dropout'')"
    and l: "riskLevel r =
       (if ci_equal caseless_db (lit ''GRADUATE'') (lit ''dropout'') then lit ''High''
        else if ci_equal caseless_db (lit ''GRADUATE'') (lit ''graduate'') then lit ''Low''
        else lit ''Medium'')"
    and e: "explanation r =
       (if ci_equal caseless_db (lit ''GRADUATE'') (lit ''dropout'') then
          lit ''Based on the provided facts, the expert system predicts a high risk of dropout. ''
        else if ci_equal caseless_db (lit ''GRADUATE'') (lit ''graduate'') then
          lit ''Based on the provided facts, the expert system predicts the student will graduate successfully. ''
        else if ci_equal caseless_db (lit ''GRADUATE'') (lit ''staysenrolled'') then
          lit ''Based on the provided facts, the expert system predicts the student will stay enrolled. ''
        else lit ''Based on the provided facts, the expert system prediction: '') @ lit ''GRADUATE''"
    and m: "remedies r =
       (if JList [JStr (lit ''x'')] = JNull then JList [] else JList [JStr (lit ''x'')])"
    using format_prediction_classifies [OF a, of caseless_db "lit ''GRADUATE''"] by blast
  have ci1: "\<not> ci_equal caseless_db (lit ''GRADUATE'') (lit ''dropout'')"
    by (simp add: ci_equal_def py_lower_def is_ascii_def ascii_lower_def lit_def)
  have ci2: "ci_equal caseless_db (lit ''GRADUATE'') (lit ''graduate'')"
    by (simp add: ci_equal_def py_lower_def is_ascii_def ascii_lower_def lit_def)
  have "r = \<lparr>willDropout = False, riskLevel = lit ''Low'',
          explanation = lit ''Based on the provided facts, the expert system predicts the student will graduate successfully. GRADUATE'',
          remedies = JList [JStr (lit ''x'')]\<rparr>"
    using w l e m ci1 ci2 by (simp add: lit_def)
  then show ?thesis using r by simp
qed

section \<open>Properties of \<^verbatim>\<open>match_rule\<close>\<close>

text \<open>
  Claim C1.  For every fact mapping and every list of rules, \<^verbatim>\<open>match_rule\<close> returns the
  first rule of the list, in list order, all of whose conditions hold in the normalized,
  null-filtered fact mapping (the key is present, with an equal value), and \<^verbatim>\<open>None\<close>
  when the list has no such rule.
\<close>

theorem match_rule_first_match:
  assumes "list_all wf_rule rules"
  shows "match_rule U facts (JList rules) =
           Inr (find (rule_satisfied (normalized_facts U facts)) rules)"
  using assms by (simp add: match_rule_def rules_loop_find map_of_pascal_facts)

theorem match_rule_first_match_witness:
  "list_all wf_rule sample_rules \<and>
   match_rule caseless_db sample_facts (JList sample_rules) = Inr (Some (sample_rules ! 1)) \<and>
   find (rule_satisfied (normalized_facts caseless_db sample_facts)) sample_rules =
     Some (sample_rules ! 1)"
proof -
  have wf: "list_all wf_rule sample_rules"
    by (simp add: sample_rules_def wf_rule_def lit_def)
  have ev: "match_rule caseless_db sample_facts (JList sample_rules) =
              Inr (Some (sample_rules ! 1))"
    by code_simp
  show ?thesis
    using match_rule_first_match [OF wf, of caseless_db sample_facts] wf ev by simp
qed

text \<open>
  Claim C6.  A rule whose \<^verbatim>\<open>conditions\<close> mapping is empty matches whenever the scan
  reaches it: when the test of every earlier rule is false, \<^verbatim>\<open>match_rule\<close> returns it,
  whatever the facts and whatever follows it in the list.
\<close>

theorem empty_conditions_rule_matches_when_reached:
  assumes empty: "rule = JObj d" "map_of d (lit ''conditions'') = Some (JObj [])"
    and earlier:
      "list_all (\<lambda>r. rule_matches (pascal_facts_loop U [] facts) r = Inr False) earlier"
  shows "match_rule U facts (JList (earlier @ rule # later)) = Inr (Some rule)"
proof -
  have "rule_matches (pascal_facts_loop U [] facts) rule = Inr True"
    using empty by (simp add: rule_matches_def)
  then have "rules_loop (pascal_facts_loop U [] facts) (rule # later) = Inr (Some rule)"
    by simp
  then show ?thesis
    using rules_loop_skip [OF earlier, of "rule # later"] by (simp add: match_rule_def)
qed

theorem empty_conditions_rule_matches_when_reached_witness:
  "catch_all_rule =
     JObj [(lit ''conditions'', JObj []), (lit ''prediction'', JStr (lit ''Graduate''))] \<and>
   map_of [(lit ''conditions'', JObj []), (lit ''prediction'', JStr (lit ''Graduate''))]
     (lit ''conditions'') = Some (JObj []) \<and>
   list_all (\<lambda>r. rule_matches (pascal_facts_loop caseless_db [] sample_facts) r = Inr False)
     [sample_rules ! 0] \<and>
   match_rule caseless_db sample_facts
     (JList ([sample_rules ! 0] @ catch_all_rule # sample_rules)) = Inr (Some catch_all_rule)"
proof -
  have a: "catch_all_rule =
      JObj [(lit ''conditions'', JObj []), (lit ''prediction'', JStr (lit ''Graduate''))]"
    by (simp add: catch_all_rule_def)
  have b: "map_of [(lit ''conditions'', JObj []), (lit ''prediction'', JStr (lit ''Graduate''))]
      (lit ''conditions'') = Some (JObj [])"
    by simp
  have c: "list_all (\<lambda>r. rule_matches (pascal_facts_loop caseless_db [] sample_facts) r = Inr False)
      [sample_rules ! 0]"
    by code_simp
  show ?thesis
    using empty_conditions_rule_matches_when_reached [OF a b c, of sample_rules] a b c by simp
qed

text \<open>
  Claim C7.  When the facts satisfy all conditions of a rule, further non-null facts
  whose normalized names the rule's conditions do not mention, added anywhere among
  them, leave the rule's test true.
\<close>

theorem extra_facts_keep_rule_matching:
  assumes sat: "rule_matches (pascal_facts_loop U [] (fs1 @ fs2)) rule = Inr True"
    and extra:
      "list_all (\<lambda>(k, v). v \<noteq> JNull \<and> camel_to_pascal U k \<notin> fst ` set (rule_conditions rule))
         extra"
  shows "rule_matches (pascal_facts_loop U [] (fs1 @ extra @ fs2)) rule = Inr True"
proof -
  from sat have wf: "wf_rule rule"
    and holds: "rule_satisfied (normalized_facts U (fs1 @ fs2)) rule"
    by (simp_all add: rule_matches_Inr_iff map_of_pascal_facts)
  have same:
    "normalized_facts U (fs1 @ extra @ fs2) (fst c) = normalized_facts U (fs1 @ fs2) (fst c)"
    if "c \<in> set (rule_conditions rule)" for c
  proof (rule normalized_facts_insert)
    show "list_all (\<lambda>(k', v). camel_to_pascal U k' \<noteq> fst c) extra"
      using extra that by (auto simp: list_all_iff)
  qed
  have "rule_satisfied (normalized_facts U (fs1 @ extra @ fs2)) rule"
    using holds same by (simp add: rule_satisfied_def list_all_iff condition_holds_def)
  then show ?thesis
    using wf by (simp add: rule_matches_Inr_iff map_of_pascal_facts)
qed

theorem extra_facts_keep_rule_matching_witness:
  "rule_matches
     (pascal_facts_loop caseless_db [] ([(lit ''age'', JInt 20)] @ [(lit ''debtor'', JBool False)]))
     (sample_rules ! 1) = Inr True \<and>
   list_all (\<lambda>(k, v). v \<noteq> JNull \<and>
               camel_to_pascal caseless_db k \<notin> fst ` set (rule_conditions (sample_rules ! 1)))
     [(lit ''gender'', JStr (lit ''F'')), (lit ''scholarship'', JBool True)] \<and>
   rule_matches
     (pascal_facts_loop caseless_db []
        ([(lit ''age'', JInt 20)] @
         [(lit ''gender'', JStr (lit ''F'')), (lit ''scholarship'', JBool True)] @
         [(lit ''debtor'', JBool False)]))
     (sample_rules ! 1) = Inr True"
proof -
  have a: "rule_matches
      (pascal_facts_loop caseless_db [] ([(lit ''age'', JInt 20)] @ [(lit ''debtor'', JBool False)]))
      (sample_rules ! 1) = Inr True"
    by code_simp
  have b: "list_all (\<lambda>(k, v). v \<noteq> JNull \<and>
               camel_to_pascal caseless_db k \<notin> fst ` set (rule_conditions (sample_rules ! 1)))
      [(lit ''gender'', JStr (lit ''F'')), (lit ''scholarship'', JBool True)]"
    by code_simp
  show ?thesis
    using extra_facts_keep_rule_matching [OF a b] a b by simp
qed

text \<open>
  Claim C2, as the code has it.  The comparison of a fact value with a condition value
  is Python's \<^verbatim>\<open>!=\<close>: two values of different JSON types are unequal, and the condition
  does not hold, except a boolean against the number of its value (\<open>true\<close> against
  \<open>1\<close> or \<open>1.0\<close>, \<open>false\<close> against \<open>0\<close> or \<open>0.0\<close>), which are equal.  So the string
  \<open>"3"\<close> never equals the number \<open>3\<close>, nor the string \<open>"true"\<close> the boolean
  \<open>true\<close>, nor \<open>true\<close> the number \<open>2\<close>.
\<close>

theorem mixed_type_condition_fails:
  assumes types: "json_type_of fact_value \<noteq> json_type_of condition_value"
    and fact: "map_of pascal_facts k = Some fact_value"
    and cond: "(k, condition_value) \<in> set conditions"
  shows "py_ne fact_value condition_value = (\<not> boolean_as_number fact_value condition_value) \<and>
         (\<not> boolean_as_number fact_value condition_value \<longrightarrow>
            \<not> conditions_match pascal_facts conditions)"
proof -
  have ne: "py_ne fact_value condition_value = (\<not> boolean_as_number fact_value condition_value)"
    using py_eq_across_types [OF types] by (simp add: py_ne_def)
  have "\<not> conditions_match pascal_facts cs"
    if "(k, condition_value) \<in> set cs" "py_ne fact_value condition_value" for cs
    using that
  proof (induction cs)
    case Nil
    then show ?case by simp
  next
    case (Cons c cs)
    obtain k' v' where c: "c = (k', v')" by (cases c)
    show ?case
    proof (cases "c = (k, condition_value)")
      case True
      then show ?thesis using fact Cons.prems(2) by simp
    next
      case False
      then have "\<not> conditions_match pascal_facts cs" using Cons by auto
      then show ?thesis by (simp add: c split: option.splits)
    qed
  qed
  then show ?thesis using ne cond by blast
qed

theorem mixed_type_condition_fails_witness:
  "json_type_of (JBool True) \<noteq> json_type_of (JInt 2) \<and>
   map_of [(lit ''Scholarship'', JBool True)] (lit ''Scholarship'') = Some (JBool True) \<and>
   (lit ''Scholarship'', JInt 2) \<in> set [(lit ''Scholarship'', JInt 2)] \<and>
   \<not> boolean_as_number (JBool True) (JInt 2) \<and>
   py_ne (JBool True) (JInt 2) \<and>
   \<not> conditions_match [(lit ''Scholarship'', JBool True)] [(lit ''Scholarship'', JInt 2)]"
proof -
  have a: "json_type_of (JBool True) \<noteq> json_type_of (JInt 2)" by simp
  have b: "map_of [(lit ''Scholarship'', JBool True)] (lit ''Scholarship'') = Some (JBool True)"
    by simp
  have c: "(lit ''Scholarship'', JInt 2) \<in> set [(lit ''Scholarship'', JInt 2)]" by simp
  have d: "\<not> boolean_as_number (JBool True) (JInt 2)" by simp
  show ?thesis
    using mixed_type_condition_fails [OF a b c] a b c d by blast
qed

text \<open>
  Claim C2 as stated fails between a boolean and the number of its value: the fact
  \<open>true\<close> equals the condition value \<open>1\<close>, and the rule that requires
  \<^verbatim>\<open>"Scholarship": 1\<close> matches the request that sends \<^verbatim>\<open>"scholarship": true\<close>.
\<close>

theorem boolean_equals_number:
  "json_type_of (JBool True) \<noteq> json_type_of (JInt 1) \<and>
   \<not> py_ne (JBool True) (JInt 1) \<and>
   \<not> py_ne (JBool False) (JInt 0) \<and>
   \<not> py_ne (JBool True) (JFloat (Finite 1)) \<and>
   \<not> py_ne (JInt 0) (JBool False) \<and>
   match_rule caseless_db
     [(lit ''scholarship'', JBool True), (lit ''age'', JInt 20), (lit ''debtor'', JBool False)]
     (JList [numeric_rule]) = Inr (Some numeric_rule)"
  by code_simp

section \<open>Properties of the endpoints\<close>

text \<open>
  Claim C4.  A request whose body is a mapping with fewer than 3 non-null values gets
  status 400, whatever reading the rules gives (a rule list of any content, or a
  failure): the answer is fixed before the rules are loaded or matched.
\<close>

theorem fewer_than_three_facts_rejected:
  assumes "length (filter (\<lambda>(k, v). v \<noteq> JNull) items) < 3"
  shows "dropout_risk U (Inr (JObj items)) rules_file =
           (ErrorBody (Msg (if items = [] then lit ''Missing request body''
                            else lit ''At least 3 facts are required'')), 400)"
proof -
  have "length (provided_facts_loop [] items) < 3"
    using assms length_provided_facts_loop [of "[]" items] by simp
  then show ?thesis
    by (simp add: dropout_risk_def)
qed

theorem fewer_than_three_facts_rejected_witness:
  "length (filter (\<lambda>(k, v). v \<noteq> JNull)
       [(lit ''age'', JInt 20), (lit ''gender'', JNull), (lit ''debtor'', JBool False)]) < 3 \<and>
   dropout_risk caseless_db
     (Inr (JObj [(lit ''age'', JInt 20), (lit ''gender'', JNull), (lit ''debtor'', JBool False)]))
     (Inl FileNotFoundError) =
     (ErrorBody (Msg (lit ''At least 3 facts are required'')), 400)"
proof -
  have a: "length (filter (\<lambda>(k, v). v \<noteq> JNull)
       [(lit ''age'', JInt 20), (lit ''gender'', JNull), (lit ''debtor'', JBool False)]) < 3"
    by simp
  show ?thesis
    using fewer_than_three_facts_rejected [OF a, of caseless_db "Inl FileNotFoundError"] a
    by simp
qed

text \<open>
  Claim C8.  A request with at least 3 non-null facts for which the loaded rules give no
  match gets status 200 and the fixed default: \<^verbatim>\<open>willDropout\<close> false, \<^verbatim>\<open>riskLevel\<close>
  Medium, the generic explanation and the two fixed remedies.
\<close>

theorem no_match_gives_default_response:
  assumes dict: "distinct (map fst items)"
    and three: "3 \<le> length (filter (\<lambda>(k, v). v \<noteq> JNull) items)"
    and loaded: "load_rules rules_file = Inr rules"
    and no_match: "match_rule U items rules = Inr None"
  shows "dropout_risk U (Inr (JObj items)) rules_file =
           (PredictionBody
              \<lparr>willDropout = False, riskLevel = lit ''Medium'',
               explanation = lit ''Based on the provided facts, no specific rule matched. General monitoring recommended.'',
               remedies = JList [JStr (lit ''Regular check-ins with academic advisor''),
                                 JStr (lit ''Monitor academic performance'')]\<rparr>, 200)"
proof -
  have provided: "provided_facts_loop [] items = filter (\<lambda>(k, v). v \<noteq> JNull) items"
    using provided_facts_loop_distinct [of "[]" items] dict by simp
  have nonempty: "items \<noteq> []" using three by auto
  have len: "\<not> length (filter (\<lambda>(k, v). v \<noteq> JNull) items) < 3" using three by simp
  show ?thesis
    using nonempty len loaded no_match
    by (simp add: dropout_risk_def provided match_rule_filter no_match_response_def)
qed

theorem no_match_gives_default_response_witness:
  "distinct (map fst unmatched_facts) \<and>
   3 \<le> length (filter (\<lambda>(k, v). v \<noteq> JNull) unmatched_facts) \<and>
   load_rules (Inr (JObj [(lit ''rules'', JList (take 2 sample_rules))])) =
     Inr (JList (take 2 sample_rules)) \<and>
   match_rule caseless_db unmatched_facts (JList (take 2 sample_rules)) = Inr None \<and>
   dropout_risk caseless_db (Inr (JObj unmatched_facts))
      (Inr (JObj [(lit ''rules'', JList (take 2 sample_rules))])) =
           (PredictionBody
              \<lparr>willDropout = False, riskLevel = lit ''Medium'',
               explanation = lit ''Based on the provided facts, no specific rule matched. General monitoring recommended.'',
               remedies = JList [JStr (lit ''Regular check-ins with academic advisor''),
                                 JStr (lit ''Monitor academic performance'')]\<rparr>, 200)"
proof -
  have a: "distinct (map fst unmatched_facts)" by code_simp
  have b: "3 \<le> length (filter (\<lambda>(k, v). v \<noteq> JNull) unmatched_facts)" by code_simp
  have c: "load_rules (Inr (JObj [(lit ''rules'', JList (take 2 sample_rules))])) =
      Inr (JList (take 2 sample_rules))"
    by (simp add: load_rules_def)
  have d: "match_rule caseless_db unmatched_facts (JList (take 2 sample_rules)) = Inr None"
    by code_simp
  show ?thesis
    using no_match_gives_default_response [OF a b c d] a b c d by simp
qed

text \<open>
  Claim C9, as the code has it.  For every fact-definition mapping whose converted keys
  are pairwise distinct and whose strings, keys converted, hold no surrogate code point,
  the facts listing returns, with status 200, the entries of the mapping in the order of
  the source, each key converted to external form and each value as it is.  Every
  mapping with internal-form keys that start with an ASCII character and with no
  surrogate code point in its strings is such a mapping.
\<close>

theorem get_facts_preserves_order:
  "(distinct (map (\<lambda>kv. pascal_to_camel U (fst kv)) items) \<and>
    utf8_encodable (JObj (map (\<lambda>(k, v). (pascal_to_camel U k, v)) items)) \<longrightarrow>
      get_facts U (Inr (JObj items)) =
        (FactsBody (map (\<lambda>(k, v). (pascal_to_camel U k, v)) items), 200)) \<and>
   (distinct (map fst items) \<and> list_all (\<lambda>kv. ascii_internal_form U (fst kv)) items \<and>
    utf8_encodable (JObj items) \<longrightarrow>
      get_facts U (Inr (JObj items)) =
        (FactsBody (map (\<lambda>(k, v). (pascal_to_camel U k, v)) items), 200))"
proof -
  have general: "get_facts U (Inr (JObj items)) =
        (FactsBody (map (\<lambda>(k, v). (pascal_to_camel U k, v)) items), 200)"
    if "distinct (map (\<lambda>kv. pascal_to_camel U (fst kv)) items)"
      "utf8_encodable (JObj (map (\<lambda>(k, v). (pascal_to_camel U k, v)) items))"
    using camel_facts_loop_distinct [of "[]" U items] that by (simp add: get_facts_def)
  have ascii: "get_facts U (Inr (JObj items)) =
        (FactsBody (map (\<lambda>(k, v). (pascal_to_camel U k, v)) items), 200)"
    if "distinct (map fst items)" "list_all (\<lambda>kv. ascii_internal_form U (fst kv)) items"
      "utf8_encodable (JObj items)"
  proof (rule general)
    show "distinct (map (\<lambda>kv. pascal_to_camel U (fst kv)) items)"
      using that(1,2) by (rule converted_keys_distinct)
    show "utf8_encodable (JObj (map (\<lambda>(k, v). (pascal_to_camel U k, v)) items))"
      using that(3) utf8_encodable_dict_converted [OF that(2)] by simp
  qed
  show ?thesis using general ascii by blast
qed

theorem get_facts_preserves_order_witness:
  "distinct (map (\<lambda>kv. pascal_to_camel caseless_db (fst kv)) sample_fact_definitions) \<and>
   utf8_encodable (JObj (map (\<lambda>(k, v). (pascal_to_camel caseless_db k, v)) sample_fact_definitions)) \<and>
   distinct (map fst sample_fact_definitions) \<and>
   list_all (\<lambda>kv. ascii_internal_form caseless_db (fst kv)) sample_fact_definitions \<and>
   utf8_encodable (JObj sample_fact_definitions) \<and>
   get_facts caseless_db (Inr (JObj sample_fact_definitions)) =
     (FactsBody [(lit ''gender'', JStr (lit ''F'')), (lit ''age'', JInt 18),
                 (lit ''debtor'', JBool False)], 200)"
proof -
  have a: "distinct (map (\<lambda>kv. pascal_to_camel caseless_db (fst kv)) sample_fact_definitions)"
    by code_simp
  have f: "map (\<lambda>(k, v). (pascal_to_camel caseless_db k, v)) sample_fact_definitions =
      [(lit ''gender'', JStr (lit ''F'')), (lit ''age'', JInt 18), (lit ''debtor'', JBool False)]"
    by code_simp
  have b: "utf8_encodable (JObj (map (\<lambda>(k, v). (pascal_to_camel caseless_db k, v)) sample_fact_definitions))"
    unfolding f by (simp add: str_encodable_def is_surrogate_def lit_def)
  have c: "distinct (map fst sample_fact_definitions)" by code_simp
  have d: "list_all (\<lambda>kv. ascii_internal_form caseless_db (fst kv)) sample_fact_definitions"
    by code_simp
  have e: "utf8_encodable (JObj sample_fact_definitions)"
    by (simp add: sample_fact_definitions_def str_encodable_def is_surrogate_def lit_def)
  show ?thesis
    using get_facts_preserves_order [of caseless_db sample_fact_definitions] a b c d e f by simp
qed

text \<open>
  Claim C9 as stated fails on two mappings with internal-form keys.  With a surrogate
  code point in a string, as in \<^verbatim>\<open>{"Age": <U+D800>}\<close>, the handler answers 500.  With
  two keys of one external form, as \<open>Kx\<close> written with the letter \<open>K\<close> and with the
  Kelvin sign, both lower-cased to \<open>kx\<close>, the listing has one key for the two.
\<close>

theorem get_facts_fails_or_merges:
  "distinct (map fst surrogate_fact_definitions) \<and>
   camel_to_pascal caseless_db (lit ''Age'') = lit ''Age'' \<and>
   get_facts caseless_db (Inr (JObj surrogate_fact_definitions)) =
     (ErrorBody (StrOf UnicodeEncodeError), 500) \<and>
   distinct (map fst colliding_fact_definitions) \<and>
   camel_to_pascal kelvin_db (lit ''Kx'') = lit ''Kx'' \<and>
   camel_to_pascal kelvin_db (8490 # lit ''x'') = 8490 # lit ''x'' \<and>
   get_facts kelvin_db (Inr (JObj colliding_fact_definitions)) =
     (FactsBody [(lit ''kx'', JInt 2)], 200)"
  by (simp add: surrogate_fact_definitions_def colliding_fact_definitions_def get_facts_def
        facts_handler_def camel_to_pascal_def pascal_to_camel_def py_upper_def py_lower_def
        is_ascii_def ascii_upper_def ascii_lower_def kelvin_db_def caseless_db_def
        str_encodable_def is_surrogate_def lit_def)


text \<open>
  A matched rule that is not the empty dict and has neither \<^verbatim>\<open>prediction\<close> nor
  \<^verbatim>\<open>actions\<close> is answered with the formatting of the default label and no remedy.
\<close>

lemma nonempty_rule_missing_fields:
  assumes dict: "distinct (map fst items)"
    and three: "3 \<le> length (filter (\<lambda>(k, v). v \<noteq> JNull) items)"
    and loaded: "load_rules rules_file = Inr rules"
    and matched: "match_rule U items rules = Inr (Some (JObj d))"
    and nonempty: "d \<noteq> []"
    and missing: "map_of d (lit ''prediction'') = None" "map_of d (lit ''actions'') = None"
  shows "dropout_risk U (Inr (JObj items)) rules_file =
           (PredictionBody
              \<lparr>willDropout = False, riskLevel = lit ''Medium'',
               explanation = lit ''Based on the provided facts, the expert system prediction: '' @ lit ''StayEnrolled'',
               remedies = JList []\<rparr>, 200)"
proof -
  have provided: "provided_facts_loop [] items = filter (\<lambda>(k, v). v \<noteq> JNull) items"
    using provided_facts_loop_distinct [of "[]" items] dict by simp
  have items: "items \<noteq> []" using three by auto
  have len: "\<not> length (filter (\<lambda>(k, v). v \<noteq> JNull) items) < 3" using three by simp
  show ?thesis
    using items len loaded matched nonempty missing
    by (simp add: dropout_risk_def provided match_rule_filter format_prediction_default_label)
qed

text \<open>
  Claim C10 at the rule \<^verbatim>\<open>{}\<close>, which lacks \<^verbatim>\<open>prediction\<close> and \<^verbatim>\<open>actions\<close>:
  \<^verbatim>\<open>match_rule\<close> returns it (it has no condition), the handler's \<^verbatim>\<open>if matched_rule:\<close>
  takes the empty dict for no match, and the answer is the no-match default with its
  two remedies, not the formatting of \<^verbatim>\<open>StayEnrolled\<close> with no remedy.
\<close>

theorem empty_rule_gets_no_match_response:
  "match_rule U
      [(lit ''age'', JInt 20), (lit ''gender'', JStr (lit ''F'')), (lit ''debtor'', JBool False)]
      (JList [JObj []]) = Inr (Some (JObj [])) \<and>
   dropout_risk U
     (Inr (JObj [(lit ''age'', JInt 20), (lit ''gender'', JStr (lit ''F'')),
                 (lit ''debtor'', JBool False)]))
     (Inr (JObj [(lit ''rules'', JList [JObj []])]))
   = (PredictionBody
        \<lparr>willDropout = False, riskLevel = lit ''Medium'',
         explanation = lit ''Based on the provided facts, no specific rule matched. General monitoring recommended.'',
         remedies = JList [JStr (lit ''Regular check-ins with academic advisor''),
                           JStr (lit ''Monitor academic performance'')]\<rparr>, 200)"
  by (simp add: dropout_risk_def match_rule_def rule_matches_def load_rules_def
        no_match_response_def lit_def)

end
